theory Spec2Isabelle
  imports Main "HOL-Library.Word"
begin

unbundle bit_operations_syntax

section \<open>Data model\<close>

text \<open>
  The driver \<^verbatim>\<open>src/ifd/ifd-ikey2k.c\<close> talks to a Rainbow iKey 2032 token through USB
  control transfers. Bytes are \<^verbatim>\<open>unsigned char\<close>, the \<^verbatim>\<open>value\<close> and \<^verbatim>\<open>index\<close> fields of a
  transfer are \<^verbatim>\<open>uint16_t\<close>, result codes are C \<^verbatim>\<open>int\<close>s (none of the driver's
  arithmetic on them can overflow, so they are HOL integers) and lengths are \<^verbatim>\<open>size_t\<close>
  (natural numbers).
\<close>

type_synonym byte = "8 word"

text \<open>An \<^verbatim>\<open>ifd_device_t *\<close> is an opaque pointer: \<open>None\<close> is \<^verbatim>\<open>NULL\<close>.\<close>

type_synonym handle = nat

text \<open>\<^verbatim>\<open>enum ikey2k_command\<close> and the number each enumerator stands for.\<close>

datatype ikey2k_command =
    IKEY2K_CMD_RESET
  | IKEY2K_CMD_GET_RESPONSE
  | IKEY2K_CMD_GET_STATUS
  | IKEY2K_CMD_LED_CONTROL
  | IKEY2K_CMD_UNK_DIRECTORY
  | IKEY2K_CMD_OPEN
  | IKEY2K_CMD_CLOSE
  | IKEY2K_CMD_READ
  | IKEY2K_CMD_WRITE
  | IKEY2K_CMD_UNK_DECREMENT
  | IKEY2K_CMD_CREATE_DIR
  | IKEY2K_CMD_CREATE_FILE
  | IKEY2K_CMD_DELETE_DIR
  | IKEY2K_CMD_DELETE_FILE
  | IKEY2K_CMD_UNK_VERIFY1
  | IKEY2K_CMD_UNK_VERIFY2
  | IKEY2K_CMD_UNK_HASH
  | IKEY2K_CMD_GEN_RANDOM
  | IKEY2K_CMD_CARD_CTL
  | IKEY2K_CMD_CARD_IO

fun command_code :: "ikey2k_command \<Rightarrow> nat" where
  "command_code IKEY2K_CMD_RESET = 0"
| "command_code IKEY2K_CMD_GET_RESPONSE = 1"
| "command_code IKEY2K_CMD_GET_STATUS = 2"
| "command_code IKEY2K_CMD_LED_CONTROL = 3"
| "command_code IKEY2K_CMD_UNK_DIRECTORY = 4"
| "command_code IKEY2K_CMD_OPEN = 5"
| "command_code IKEY2K_CMD_CLOSE = 6"
| "command_code IKEY2K_CMD_READ = 7"
| "command_code IKEY2K_CMD_WRITE = 8"
| "command_code IKEY2K_CMD_UNK_DECREMENT = 9"
| "command_code IKEY2K_CMD_CREATE_DIR = 10"
| "command_code IKEY2K_CMD_CREATE_FILE = 11"
| "command_code IKEY2K_CMD_DELETE_DIR = 12"
| "command_code IKEY2K_CMD_DELETE_FILE = 13"
| "command_code IKEY2K_CMD_UNK_VERIFY1 = 14"
| "command_code IKEY2K_CMD_UNK_VERIFY2 = 15"
| "command_code IKEY2K_CMD_UNK_HASH = 16"
| "command_code IKEY2K_CMD_GEN_RANDOM = 18"
| "command_code IKEY2K_CMD_CARD_CTL = 22"
| "command_code IKEY2K_CMD_CARD_IO = 23"

text \<open>\<^verbatim>\<open>enum ikey2k_card_command\<close>.\<close>

datatype ikey2k_card_command =
    IKEY2K_CARDCMD_RESET
  | IKEY2K_CARDCMD_GET_ATR
  | IKEY2K_CARDCMD_UNK
  | IKEY2K_CARDCMD_EXCHANGE

fun card_command_code :: "ikey2k_card_command \<Rightarrow> nat" where
  "card_command_code IKEY2K_CARDCMD_RESET = 0"
| "card_command_code IKEY2K_CARDCMD_GET_ATR = 1"
| "card_command_code IKEY2K_CARDCMD_UNK = 2"
| "card_command_code IKEY2K_CARDCMD_EXCHANGE = 3"

text \<open>
  One call of \<^verbatim>\<open>ifd_usb_control(dev, requesttype, request, value, index, data, len, timeout)\<close>
  as the device sees it. \<open>x_data\<close> holds the \<open>x_len\<close> payload bytes of a host-to-device
  transfer; it is empty for a device-to-host transfer, whose buffer is only written.
\<close>

record usb_xfer =
  x_requesttype :: nat
  x_request :: nat
  x_value :: "16 word"
  x_index :: "16 word"
  x_data :: "byte list"
  x_len :: nat
  x_timeout :: int

text \<open>
  The effects of the driver on its surroundings, in the order they happen: control
  transfers on a device handle, messages given to \<^verbatim>\<open>ct_error\<close> (format string and
  arguments), and the calls into the framework's device layer made by \<^verbatim>\<open>ikey2k_open\<close>
  (\<open>SetParameters\<close> records the handle and the USB interface number asked for).
\<close>

datatype event =
    Transfer "handle option" usb_xfer
  | CtError string "string list"
  | DeviceOpen string "handle option"
  | DeviceClose handle
  | SetParameters handle int

type_synonym world = "event list"

text \<open>
  C leaves two things the driver can do without a meaning: reading a byte that holds no
  value (a byte past the end of a buffer, or one of a local array that nothing has
  written yet), and using the value of a call to a function that reached its closing
  brace without a \<^verbatim>\<open>return\<close>. A buffer is modelled by the list of its bytes that hold a
  value, so both kinds of bad read are reads past the end of the list; a freshly
  declared local array is the empty list.
\<close>

datatype undefined_behaviour = InvalidRead | NoReturnValue

datatype 'a outcome = Undefined undefined_behaviour | Done 'a

section \<open>The transport\<close>

text \<open>
  The token and the USB stack behind \<^verbatim>\<open>ifd_usb_control\<close>: given everything that happened
  so far, the handle and the transfer, the result code (bytes transferred, or a negative
  error) and, for a device-to-host transfer, the bytes delivered.
\<close>

type_synonym transport = "world \<Rightarrow> handle option \<Rightarrow> usb_xfer \<Rightarrow> int \<times> byte list"

text \<open>
  Modelled from the spec: \<^verbatim>\<open>ifd_usb_control\<close> is declared in \<^verbatim>\<open>internal.h\<close>, which is not
  part of the sources. Section 6 gives its contract,
  \<^verbatim>\<open>control_transfer(handle, direction_flags, request_code, value, index, buffer, length,
  timeout_ms) -> bytes_transferred_or_negative_error\<close>, with direction flags \<^verbatim>\<open>0x41\<close>
  (host to device) and \<^verbatim>\<open>0xC1\<close> (device to host); bit 7 of the flags is the direction.
  A host-to-device transfer reads \<open>len\<close> bytes at \<open>data\<close>; a device-to-host transfer
  writes at most \<open>len\<close> bytes at the start of \<open>data\<close> and leaves the rest as it was.
  The result is the code, the buffer afterwards and the extended history.
\<close>

definition ifd_usb_control ::
  "transport \<Rightarrow> world \<Rightarrow> handle option \<Rightarrow> nat \<Rightarrow> nat \<Rightarrow> 16 word \<Rightarrow> 16 word \<Rightarrow>
     byte list \<Rightarrow> nat \<Rightarrow> int \<Rightarrow> (int \<times> byte list \<times> world) outcome" where
  "ifd_usb_control usb w dev requesttype request value index data len timeout =
     (if requesttype AND 0x80 = 0 then
        if length data < len then Undefined InvalidRead
        else
          let x = \<lparr>x_requesttype = requesttype, x_request = request, x_value = value,
                   x_index = index, x_data = take len data, x_len = len,
                   x_timeout = timeout\<rparr>
          in Done (fst (usb w dev x), data, w @ [Transfer dev x])
      else
        let x = \<lparr>x_requesttype = requesttype, x_request = request, x_value = value,
                 x_index = index, x_data = [], x_len = len, x_timeout = timeout\<rparr>;
            (rc, bytes) = usb w dev x;
            n = min len (length bytes)
        in Done (rc, take n bytes @ drop n data, w @ [Transfer dev x]))"

text \<open>The fields of \<^verbatim>\<open>ifd_reader_t\<close> the driver touches; any others are the record's extension.\<close>

record ifd_reader =
  name :: string
  nslots :: nat
  device :: "handle option"

section \<open>Control-transfer codec\<close>

text \<open>
  One of the four guarded steps of \<^verbatim>\<open>ikey2k_do_send\<close>,
  \<^verbatim>\<open>if (len > 0) { field |= *data++ << shift; len--; }\<close>, on the triple (field, data, len).
  The byte is promoted to \<^verbatim>\<open>int\<close> before the shift and the result is stored into a
  \<^verbatim>\<open>uint16_t\<close>.
\<close>

definition consume_byte ::
  "nat \<Rightarrow> 16 word \<times> byte list \<times> nat \<Rightarrow> (16 word \<times> byte list \<times> nat) outcome" where
  "consume_byte shift s =
     (case s of (field, data, len) \<Rightarrow>
        if len > 0 then
          (case data of
             [] \<Rightarrow> Undefined InvalidRead
           | b # rest \<Rightarrow> Done (field OR push_bit shift (ucast b), rest, len - 1))
        else Done (field, data, len))"

definition ikey2k_do_send ::
  "transport \<Rightarrow> 'r ifd_reader_scheme \<Rightarrow> world \<Rightarrow> ikey2k_command \<Rightarrow> byte list \<Rightarrow> nat \<Rightarrow>
     (int \<times> world) outcome" where
  "ikey2k_do_send usb reader w cmd data len =
     (case consume_byte 0 (0, data, len) of
        Undefined u \<Rightarrow> Undefined u
      | Done (value, data, len) \<Rightarrow>
     (case consume_byte 8 (value, data, len) of
        Undefined u \<Rightarrow> Undefined u
      | Done (value, data, len) \<Rightarrow>
     (case consume_byte 0 (0, data, len) of
        Undefined u \<Rightarrow> Undefined u
      | Done (index, data, len) \<Rightarrow>
     (case consume_byte 8 (index, data, len) of
        Undefined u \<Rightarrow> Undefined u
      | Done (index, data, len) \<Rightarrow>
     (case ifd_usb_control usb w (device reader) 0x41 (command_code cmd) value index
             data len 1000 of
        Undefined u \<Rightarrow> Undefined u
      | Done (rc, data, w) \<Rightarrow> Done (rc, w))))))"

definition ikey2k_do_recv ::
  "transport \<Rightarrow> 'r ifd_reader_scheme \<Rightarrow> world \<Rightarrow> ikey2k_command \<Rightarrow> byte list \<Rightarrow> nat \<Rightarrow>
     (int \<times> byte list \<times> world) outcome" where
  "ikey2k_do_recv usb reader w cmd data len =
     ifd_usb_control usb w (device reader) 0xC1 (command_code cmd) 0 0 data len 1000"

section \<open>Device command layer\<close>

text \<open>
  \<^verbatim>\<open>outdata\<close> may be \<^verbatim>\<open>NULL\<close> (\<open>None\<close>); the driver tests it before it fetches a response.
  The result carries the output buffer as the call leaves it.
\<close>

definition ikey2k_do_cmd ::
  "transport \<Rightarrow> 'r ifd_reader_scheme \<Rightarrow> world \<Rightarrow> ikey2k_command \<Rightarrow> byte list \<Rightarrow> nat \<Rightarrow>
     byte list option \<Rightarrow> nat \<Rightarrow> (int \<times> byte list option \<times> world) outcome" where
  "ikey2k_do_cmd usb reader w cmd indata inlen outdata outlen =
     (case ikey2k_do_send usb reader w cmd indata inlen of
        Undefined u \<Rightarrow> Undefined u
      | Done (rc, w) \<Rightarrow>
          if rc \<ge> 0 \<and> outdata \<noteq> None \<and> outlen \<noteq> 0 then
            (case ikey2k_do_recv usb reader w IKEY2K_CMD_GET_RESPONSE (the outdata) outlen of
               Undefined u \<Rightarrow> Undefined u
             | Done (rc, out, w) \<Rightarrow> Done (rc, Some out, w))
          else Done (rc, outdata, w))"

section \<open>Card sub-command layer\<close>

definition ikey2k_do_card_send ::
  "transport \<Rightarrow> 'r ifd_reader_scheme \<Rightarrow> world \<Rightarrow> byte list \<Rightarrow> nat \<Rightarrow> (int \<times> world) outcome" where
  "ikey2k_do_card_send usb reader w indata inlen =
     ikey2k_do_send usb reader w IKEY2K_CMD_CARD_IO indata inlen"

definition ikey2k_do_card_recv ::
  "transport \<Rightarrow> 'r ifd_reader_scheme \<Rightarrow> world \<Rightarrow> byte list \<Rightarrow> nat \<Rightarrow>
     (int \<times> byte list \<times> world) outcome" where
  "ikey2k_do_card_recv usb reader w outdata outlen =
     ikey2k_do_recv usb reader w IKEY2K_CMD_GET_RESPONSE outdata outlen"

text \<open>
  \<^verbatim>\<open>unsigned char buf[256]\<close> receives the sub-command, the argument (an \<^verbatim>\<open>int\<close> stored
  into a byte) and, when \<open>inlen\<close> is not zero, \<^verbatim>\<open>min(sizeof(buf) - 2, inlen)\<close> bytes of
  \<open>indata\<close>. The length handed to \<^verbatim>\<open>ikey2k_do_send\<close> is \<^verbatim>\<open>inlen + 2\<close>. The source adds in
  \<^verbatim>\<open>size_t\<close>, where the sum wraps for the two largest values of \<open>inlen\<close>; the model adds
  natural numbers and stands for the code at every \<open>inlen\<close> below \<^verbatim>\<open>SIZE_MAX - 1\<close>.
\<close>

definition ikey2k_do_card_cmd ::
  "transport \<Rightarrow> 'r ifd_reader_scheme \<Rightarrow> world \<Rightarrow> ikey2k_card_command \<Rightarrow> int \<Rightarrow> byte list \<Rightarrow>
     nat \<Rightarrow> byte list option \<Rightarrow> nat \<Rightarrow> (int \<times> byte list option \<times> world) outcome" where
  "ikey2k_do_card_cmd usb reader w cmd arg1 indata inlen outdata outlen =
     (let buf = [of_nat (card_command_code cmd), of_int arg1] in
      case (if inlen \<noteq> 0 then
              let n = min (256 - 2) inlen in
              if length indata < n then Undefined InvalidRead
              else Done (buf @ take n indata)
            else Done buf) of
        Undefined u \<Rightarrow> Undefined u
      | Done buf \<Rightarrow>
     (case ikey2k_do_send usb reader w IKEY2K_CMD_CARD_CTL buf (inlen + 2) of
        Undefined u \<Rightarrow> Undefined u
      | Done (rc, w) \<Rightarrow>
          if rc \<ge> 0 \<and> outdata \<noteq> None \<and> outlen \<noteq> 0 then
            (case ikey2k_do_recv usb reader w IKEY2K_CMD_GET_RESPONSE (the outdata) outlen of
               Undefined u \<Rightarrow> Undefined u
             | Done (rc, out, w) \<Rightarrow> Done (rc, Some out, w))
          else Done (rc, outdata, w)))"

section \<open>Descriptor validator\<close>

text \<open>
  What a call of a C function with result type \<^verbatim>\<open>int\<close> hands back: the value of a
  \<^verbatim>\<open>return\<close> statement, or nothing when control reaches the closing brace.
\<close>

datatype return_value = Return int | NoReturn

text \<open>
  \<^verbatim>\<open>ikey2k_parse_desc\<close> has three \<^verbatim>\<open>return\<close> statements, \<open>-1\<close>, \<open>-2\<close> and \<open>-3\<close>, and none
  after the last test. The tests read \<open>desc[0]\<close>, \<open>desc[1]\<close> and \<open>desc[0xC]\<close>, each only
  when the tests before it (left to right, \<^verbatim>\<open>||\<close> and \<^verbatim>\<open>&&\<close> short-circuit) let control
  reach it. A byte is promoted to \<^verbatim>\<open>int\<close> for the comparisons.
\<close>

definition ikey2k_parse_desc ::
  "'r ifd_reader_scheme \<Rightarrow> byte list \<Rightarrow> int \<Rightarrow> return_value outcome" where
  "ikey2k_parse_desc reader desc desclen =
     (if desclen < 6 \<or> desclen > 0x40 then Done (Return (- 1))
      else if length desc \<le> 0 then Undefined InvalidRead
      else if uint (desc ! 0) \<noteq> desclen then Done (Return (- 1))
      else if length desc \<le> 1 then Undefined InvalidRead
      else if uint (desc ! 1) < 0x60 \<or> uint (desc ! 1) > 0x6F then Done (Return (- 2))
      else if desclen > 0xC then
        if length desc \<le> 0xC then Undefined InvalidRead
        else if uint (desc ! 0xC) \<noteq> 9 \<and> uint (desc ! 0xC) \<noteq> 25 then Done (Return (- 3))
        else Done NoReturn
      else Done NoReturn)"

section \<open>Driver API\<close>

text \<open>
  Modelled from the spec: the framework's device layer (\<^verbatim>\<open>ifd_device_open\<close>,
  \<^verbatim>\<open>ifd_device_type\<close>, the \<^verbatim>\<open>settings\<close> of a device, \<^verbatim>\<open>ifd_device_set_parameters\<close>,
  \<^verbatim>\<open>ifd_device_close\<close>) is declared in \<^verbatim>\<open>internal.h\<close>, which is not part of the sources.
  Section 6 gives the contract: \<^verbatim>\<open>open(name) -> handle_or_null\<close>,
  \<^verbatim>\<open>handle.type() -> enum{USB, other}\<close>, \<^verbatim>\<open>handle.set_parameters(params)\<close>,
  \<^verbatim>\<open>close(handle)\<close>. Each function may answer from everything that happened so far.
  Of the parameters only the USB interface number is named by the driver; the other
  settings are the record's extension.
\<close>

datatype device_type = IFD_DEVICE_TYPE_USB | IFD_DEVICE_TYPE_OTHER

record ifd_device_params =
  usb_interface :: int

record 's device_layer =
  ifd_device_open :: "world \<Rightarrow> string \<Rightarrow> handle option"
  ifd_device_type :: "world \<Rightarrow> handle \<Rightarrow> device_type"
  settings :: "world \<Rightarrow> handle \<Rightarrow> 's ifd_device_params_scheme"
  ifd_device_set_parameters :: "world \<Rightarrow> handle \<Rightarrow> 's ifd_device_params_scheme \<Rightarrow> int"

text \<open>Open the reader. The result is the return code, the reader and the history.\<close>

definition ikey2k_open ::
  "'s device_layer \<Rightarrow> 'r ifd_reader_scheme \<Rightarrow> world \<Rightarrow> string \<Rightarrow>
     int \<times> 'r ifd_reader_scheme \<times> world" where
  "ikey2k_open fw reader w device_name =
     (let reader = reader\<lparr>name := ''Rainbow Technologies iKey 2032''\<rparr>;
          reader = reader\<lparr>nslots := 1\<rparr>;
          opened = ifd_device_open fw w device_name;
          w = w @ [DeviceOpen device_name opened]
      in case opened of
           None \<Rightarrow> (- 1, reader, w)
         | Some dev \<Rightarrow>
             if ifd_device_type fw w dev \<noteq> IFD_DEVICE_TYPE_USB then
               (- 1, reader,
                w @ [CtError ''ikey2k: device %s is not a USB device'' [device_name],
                     DeviceClose dev])
             else
               let params = settings fw w dev;
                   params = params\<lparr>usb_interface := 0\<rparr>;
                   rc = ifd_device_set_parameters fw w dev params;
                   w = w @ [SetParameters dev (usb_interface params)]
               in if rc < 0 then
                    (- 1, reader,
                     w @ [CtError ''ikey2k: setting parameters failed'' [device_name],
                          DeviceClose dev])
                  else (0, reader\<lparr>device := Some dev\<rparr>, w))"

text \<open>Close the reader.\<close>

definition ikey2k_close :: "'r ifd_reader_scheme \<Rightarrow> int" where
  "ikey2k_close reader = 0"

text \<open>
  Power up the reader. \<^verbatim>\<open>char buffer[256]\<close> starts without a value; the test is
  \<^verbatim>\<open>desclen <= 0 || !ikey2k_parse_desc(reader, buffer, desclen)\<close>, so the validator is
  called only for a positive length and its value is negated.
\<close>

definition ikey2k_activate ::
  "transport \<Rightarrow> 'r ifd_reader_scheme \<Rightarrow> world \<Rightarrow> (int \<times> world) outcome" where
  "ikey2k_activate usb reader w =
     (case ikey2k_do_recv usb reader w IKEY2K_CMD_RESET [] 256 of
        Undefined u \<Rightarrow> Undefined u
      | Done (desclen, buffer, w) \<Rightarrow>
          if desclen \<le> 0 then
            Done (- 1, w @ [CtError ''ikey2k: failed to reset reader'' []])
          else
            (case ikey2k_parse_desc reader buffer desclen of
               Undefined u \<Rightarrow> Undefined u
             | Done NoReturn \<Rightarrow> Undefined NoReturnValue
             | Done (Return v) \<Rightarrow>
                 if v = 0 then
                   Done (- 1, w @ [CtError ''ikey2k: failed to reset reader'' []])
                 else Done (0, w)))"

text \<open>The bytes readable through a pointer: none through \<^verbatim>\<open>NULL\<close>.\<close>

fun deref :: "byte list option \<Rightarrow> byte list" where
  "deref None = []"
| "deref (Some buffer) = buffer"

text \<open>
  Power down the reader. \<^verbatim>\<open>buffer[0]\<close> is read only when the sub-command returned 1
  (\<^verbatim>\<open>||\<close> short-circuits).
\<close>

definition ikey2k_deactivate ::
  "transport \<Rightarrow> 'r ifd_reader_scheme \<Rightarrow> world \<Rightarrow> (int \<times> world) outcome" where
  "ikey2k_deactivate usb reader w =
     (case ikey2k_do_card_cmd usb reader w IKEY2K_CARDCMD_RESET 0 [] 0 (Some []) 2 of
        Undefined u \<Rightarrow> Undefined u
      | Done (rc, out, w) \<Rightarrow>
          if rc \<noteq> 1 then Done (- 1, w @ [CtError ''ikey2k: failed to reset card'' []])
          else
            (case deref out of
               [] \<Rightarrow> Undefined InvalidRead
             | b0 # rest \<Rightarrow>
                 if b0 \<noteq> 0 then Done (- 1, w @ [CtError ''ikey2k: failed to reset card'' []])
                 else Done (0, w)))"

text \<open>
  Reset the card. The local \<^verbatim>\<open>buffer[256]\<close> is both the (empty) input and the output of
  every sub-command. \<^verbatim>\<open>atr\<close> is the caller's buffer of \<open>atr_size\<close> bytes (the parameter
  \<^verbatim>\<open>size\<close>); \<^verbatim>\<open>memcpy\<close> reads \<open>atrlen\<close> bytes of \<open>buffer\<close> into it. In
  \<^verbatim>\<open>atrlen > size\<close> the \<^verbatim>\<open>int\<close> is converted to \<^verbatim>\<open>size_t\<close>; the test before it has
  excluded every value below 9.
\<close>

definition ikey2k_card_reset ::
  "transport \<Rightarrow> 'r ifd_reader_scheme \<Rightarrow> world \<Rightarrow> int \<Rightarrow> byte list \<Rightarrow> nat \<Rightarrow>
     (int \<times> byte list \<times> world) outcome" where
  "ikey2k_card_reset usb reader w slot atr atr_size =
     (case ikey2k_do_card_cmd usb reader w IKEY2K_CARDCMD_RESET 0 [] 0 (Some []) 2 of
        Undefined u \<Rightarrow> Undefined u
      | Done (rc, out, w) \<Rightarrow>
          if rc \<noteq> 1 then
            Done (- 1, atr, w @ [CtError ''ikey2k: failed to activate token'' []])
          else
     (case deref out of
        [] \<Rightarrow> Undefined InvalidRead
      | b0 # rest \<Rightarrow>
          if b0 \<noteq> 0 then
            Done (- 1, atr, w @ [CtError ''ikey2k: failed to activate token'' []])
          else
     (case ikey2k_do_card_cmd usb reader w IKEY2K_CARDCMD_GET_ATR 25 (deref out) 0 out 25 of
        Undefined u \<Rightarrow> Undefined u
      | Done (atrlen, out, w) \<Rightarrow>
     (case (if atrlen \<noteq> 25 then
              ikey2k_do_card_cmd usb reader w IKEY2K_CARDCMD_GET_ATR 9 (deref out) 0 out 9
            else Done (atrlen, out, w)) of
        Undefined u \<Rightarrow> Undefined u
      | Done (atrlen, out, w) \<Rightarrow>
          if atrlen < 9 \<or> nat atrlen > atr_size then
            Done (- 1, atr, w @ [CtError ''ikey2k: failed to activate token'' []])
          else if length (deref out) < nat atrlen then Undefined InvalidRead
          else
            Done (atrlen, take (nat atrlen) (deref out) @ drop (nat atrlen) atr, w)))))"

text \<open>Send/receive routines.\<close>

definition ikey2k_send ::
  "transport \<Rightarrow> 'r ifd_reader_scheme \<Rightarrow> world \<Rightarrow> nat \<Rightarrow> byte list \<Rightarrow> nat \<Rightarrow>
     (int \<times> world) outcome" where
  "ikey2k_send usb reader w dad buffer len = ikey2k_do_card_send usb reader w buffer len"

definition ikey2k_recv ::
  "transport \<Rightarrow> 'r ifd_reader_scheme \<Rightarrow> world \<Rightarrow> nat \<Rightarrow> byte list \<Rightarrow> nat \<Rightarrow> int \<Rightarrow>
     (int \<times> byte list \<times> world) outcome" where
  "ikey2k_recv usb reader w dad buffer len timeout = ikey2k_do_card_recv usb reader w buffer len"

section \<open>Notions used to state the properties\<close>

text \<open>
  The 16-bit field the codec builds from at most two bytes: little-endian, low byte
  first, a missing byte leaves its half zero.
\<close>

fun le16 :: "byte list \<Rightarrow> 16 word" where
  "le16 [] = 0"
| "le16 [lo] = ucast lo"
| "le16 (lo # hi # rest) = ucast lo OR push_bit 8 (ucast hi)"

text \<open>
  The host-to-device transfer that carries the byte sequence \<open>input\<close> for a command: the
  first four bytes in \<open>value\<close> and \<open>index\<close>, the bytes after them as payload.
\<close>

definition send_xfer :: "ikey2k_command \<Rightarrow> byte list \<Rightarrow> usb_xfer" where
  "send_xfer cmd input =
     \<lparr>x_requesttype = 0x41, x_request = command_code cmd,
      x_value = le16 (take 2 input), x_index = le16 (take 2 (drop 2 input)),
      x_data = drop 4 input, x_len = length input - 4, x_timeout = 1000\<rparr>"

text \<open>The device-to-host transfer that fetches up to \<open>capacity\<close> bytes with a command.\<close>

definition recv_xfer :: "ikey2k_command \<Rightarrow> nat \<Rightarrow> usb_xfer" where
  "recv_xfer cmd capacity =
     \<lparr>x_requesttype = 0xC1, x_request = command_code cmd, x_value = 0, x_index = 0,
      x_data = [], x_len = capacity, x_timeout = 1000\<rparr>"

text \<open>
  Reading a history: the card sub-commands in it, each a host-to-device transfer of
  \<open>IKEY2K_CMD_CARD_CTL\<close> whose \<open>value\<close> holds the sub-command (low byte) and its argument
  (high byte); and the control transfers in it.
\<close>

fun card_call_of :: "event \<Rightarrow> (nat \<times> nat) option" where
  "card_call_of (Transfer dev x) =
     (if x_requesttype x = 0x41 \<and> x_request x = command_code IKEY2K_CMD_CARD_CTL
      then Some (unat (x_value x AND 0xFF), unat (drop_bit 8 (x_value x)))
      else None)"
| "card_call_of e = None"

definition card_calls :: "world \<Rightarrow> (nat \<times> nat) list" where
  "card_calls w = List.map_filter card_call_of w"

fun transfer_of :: "event \<Rightarrow> usb_xfer option" where
  "transfer_of (Transfer dev x) = Some x"
| "transfer_of e = None"

definition transfers :: "world \<Rightarrow> usb_xfer list" where
  "transfers w = List.map_filter transfer_of w"

text \<open>
  The verdict on the final ATR of \<open>atrlen\<close> bytes in \<open>buffer\<close>: it is accepted, copied
  to the caller's \<open>atr\<close> and its length returned, if and only if \<open>atrlen\<close> lies within
  \<open>[9, atr_size]\<close>; otherwise the failure is reported and \<open>-1\<close> returned. Copying reads
  \<open>atrlen\<close> bytes of \<open>buffer\<close>, which must hold them.
\<close>

definition atr_verdict ::
  "int \<Rightarrow> byte list \<Rightarrow> world \<Rightarrow> byte list \<Rightarrow> nat \<Rightarrow> (int \<times> byte list \<times> world) outcome" where
  "atr_verdict atrlen buffer w atr atr_size =
     (if 9 \<le> atrlen \<and> nat atrlen \<le> atr_size then
        if nat atrlen \<le> length buffer
        then Done (atrlen, take (nat atrlen) buffer @ drop (nat atrlen) atr, w)
        else Undefined InvalidRead
      else Done (- 1, atr, w @ [CtError ''ikey2k: failed to activate token'' []]))"

subsection \<open>Concrete readers, descriptors and tokens\<close>

definition reader0 :: ifd_reader where
  "reader0 = \<lparr>name = ''Rainbow Technologies iKey 2032'', nslots = 1, device = Some 0\<rparr>"

text \<open>The descriptor of the comment in \<^verbatim>\<open>ikey2k_parse_desc\<close>: \<^verbatim>\<open>0d6300062d2dc0808060800119\<close>.\<close>

definition example_desc :: "byte list" where
  "example_desc =
     [0x0d, 0x63, 0x00, 0x06, 0x2d, 0x2d, 0xc0, 0x80, 0x80, 0x60, 0x80, 0x01, 0x19]"

text \<open>The same thirteen bytes with a length byte of 12.\<close>

definition bad_length_desc :: "byte list" where
  "bad_length_desc =
     [0x0c, 0x63, 0x00, 0x06, 0x2d, 0x2d, 0xc0, 0x80, 0x80, 0x60, 0x80, 0x01, 0x19]"

text \<open>A token that answers every transfer with the same code and bytes.\<close>

definition token_replying :: "int \<Rightarrow> byte list \<Rightarrow> transport" where
  "token_replying rc bytes = (\<lambda>w dev x. (rc, bytes))"

text \<open>A token that refuses every host-to-device transfer with the error code -5.\<close>

definition failing_token :: transport where
  "failing_token =
     (\<lambda>w dev x. if x_requesttype x = 0x41 then (- 5, []) else (3, [0xAA, 0xBB, 0xCC]))"

text \<open>
  A token that accepts every host-to-device transfer, answers the card reset (fetched
  with capacity 2) with the single byte 0, a fetch of capacity 25 with \<open>n25\<close> bytes and
  any other fetch with nine bytes.
\<close>

definition atr_token :: "int \<Rightarrow> transport" where
  "atr_token n25 =
     (\<lambda>w dev x. if x_requesttype x = 0x41 then (0, [])
                else if x_len x = 2 then (1, [0])
                else if x_len x = 25 then (n25, replicate (nat n25) 0x3B)
                else (9, replicate 9 0x3F))"

text \<open>
  A device layer whose answers do not depend on the history, and a reader as the
  framework might hand it to \<^verbatim>\<open>ikey2k_open\<close>.
\<close>

definition test_layer :: "handle option \<Rightarrow> device_type \<Rightarrow> int \<Rightarrow> unit device_layer" where
  "test_layer opened type rc =
     \<lparr>ifd_device_open = (\<lambda>w device_name. opened),
      ifd_device_type = (\<lambda>w dev. type),
      settings = (\<lambda>w dev. \<lparr>usb_interface = 3\<rparr>),
      ifd_device_set_parameters = (\<lambda>w dev params. rc)\<rparr>"

definition stale_reader :: ifd_reader where
  "stale_reader = \<lparr>name = ''unnamed'', nslots = 4, device = None\<rparr>"

section \<open>Properties\<close>

subsection \<open>Auxiliary facts\<close>

lemma consume_byte_0: "consume_byte sh (f, data, 0) = Done (f, data, 0)"
  by (simp add: consume_byte_def)

lemma consume_byte_Suc:
  "consume_byte sh (f, b # rest, Suc n) = Done (f OR push_bit sh (ucast b), rest, n)"
  by (simp add: consume_byte_def)

lemma do_recv_eq:
  "ikey2k_do_recv usb reader w cmd data len =
     (let r = usb w (device reader) (recv_xfer cmd len); n = min len (length (snd r))
      in Done (fst r, take n (snd r) @ drop n data,
               w @ [Transfer (device reader) (recv_xfer cmd len)]))"
  by (simp add: ikey2k_do_recv_def ifd_usb_control_def recv_xfer_def Let_def split: prod.splits)

text \<open>
  When the buffer holds the \<open>len\<close> bytes it is said to hold, a send is one transfer: the
  one that \<open>send_xfer\<close> describes for the first \<open>len\<close> bytes.
\<close>

lemma do_send_in_bounds:
  assumes "len \<le> length data"
  shows "ikey2k_do_send usb reader w cmd data len =
           Done (fst (usb w (device reader) (send_xfer cmd (take len data))),
                 w @ [Transfer (device reader) (send_xfer cmd (take len data))])"
proof (cases len)
  case 0
  then show ?thesis
    by (simp add: ikey2k_do_send_def consume_byte_0 ifd_usb_control_def send_xfer_def Let_def)
next
  case len1: (Suc n1)
  then obtain b0 d1 where d: "data = b0 # d1"
    using assms by (cases data) auto
  show ?thesis
  proof (cases n1)
    case 0
    then show ?thesis using len1 d
      by (simp add: ikey2k_do_send_def consume_byte_0 consume_byte_Suc ifd_usb_control_def
          send_xfer_def Let_def)
  next
    case len2: (Suc n2)
    then obtain b1 d2 where d1: "d1 = b1 # d2"
      using assms d len1 by (cases d1) auto
    show ?thesis
    proof (cases n2)
      case 0
      then show ?thesis using len1 len2 d d1
        by (simp add: ikey2k_do_send_def consume_byte_0 consume_byte_Suc ifd_usb_control_def
            send_xfer_def Let_def)
    next
      case len3: (Suc n3)
      then obtain b2 d3 where d2: "d2 = b2 # d3"
        using assms d d1 len1 len2 by (cases d2) auto
      show ?thesis
      proof (cases n3)
        case 0
        then show ?thesis using len1 len2 len3 d d1 d2
          by (simp add: ikey2k_do_send_def consume_byte_0 consume_byte_Suc ifd_usb_control_def
              send_xfer_def Let_def)
      next
        case len4: (Suc n4)
        then obtain b3 d4 where d3: "d3 = b3 # d4"
          using assms d d1 d2 len1 len2 len3 by (cases d3) auto
        show ?thesis using len1 len2 len3 len4 d d1 d2 d3 assms
          by (simp add: ikey2k_do_send_def consume_byte_0 consume_byte_Suc ifd_usb_control_def
              send_xfer_def Let_def)
      qed
    qed
  qed
qed

lemma do_send_four:
  "ikey2k_do_send usb reader w cmd (b0 # b1 # b2 # b3 # rest) (Suc (Suc (Suc (Suc n)))) =
     (case ifd_usb_control usb w (device reader) 0x41 (command_code cmd)
             (ucast b0 OR push_bit 8 (ucast b1)) (ucast b2 OR push_bit 8 (ucast b3))
             rest n 1000 of
        Undefined u \<Rightarrow> Undefined u
      | Done (rc, data, w) \<Rightarrow> Done (rc, w))"
  by (simp add: ikey2k_do_send_def consume_byte_Suc)

lemma usb_control_out_short:
  "length data < len \<Longrightarrow>
     ifd_usb_control usb w dev 0x41 rq v i data len t = Undefined InvalidRead"
  by (simp add: ifd_usb_control_def)

text \<open>
  Every input longer than 254 bytes (and short enough for \<^verbatim>\<open>inlen + 2\<close> not to wrap in
  \<^verbatim>\<open>size_t\<close>) makes \<^verbatim>\<open>ikey2k_do_card_cmd\<close> read past a buffer: past
  \<open>indata\<close> when it is shorter than the 254 bytes copied, past the 256-byte frame
  otherwise, since the length handed on is \<open>inlen + 2 > 256\<close>.
\<close>

lemma card_cmd_overlong:
  assumes "254 < inlen"
  shows "ikey2k_do_card_cmd usb reader w cmd arg1 indata inlen outdata outlen =
           Undefined InvalidRead"
proof (cases "length indata < 254")
  case True
  with assms show ?thesis by (simp add: ikey2k_do_card_cmd_def Let_def)
next
  case False
  define n where "n = inlen - 2"
  have n: "inlen + 2 = Suc (Suc (Suc (Suc n)))" and n253: "253 \<le> n"
    using assms by (simp_all add: n_def)
  define payload where "payload = take 254 indata"
  have len: "length payload = 254" using False by (simp add: payload_def)
  then obtain b2 b3 rest where p: "payload = b2 # b3 # rest"
    by (cases payload; cases "tl payload") auto
  have rest: "length rest = 252" using len p by simp
  have "ikey2k_do_send usb reader w IKEY2K_CMD_CARD_CTL
          (of_nat (card_command_code cmd) # of_int arg1 # b2 # b3 # rest) (inlen + 2) =
        Undefined InvalidRead"
    unfolding n do_send_four using rest n253 by (simp add: usb_control_out_short)
  then show ?thesis using assms False
    by (simp add: ikey2k_do_card_cmd_def Let_def payload_def [symmetric] p)
qed

text \<open>With the bytes of the descriptor in place, the validator is a chain of four tests.\<close>

lemma parse_desc_in_bounds:
  assumes "desclen \<le> int (length desc)"
  shows "ikey2k_parse_desc reader desc desclen =
     (if desclen < 6 \<or> desclen > 0x40 then Done (Return (- 1))
      else if uint (desc ! 0) \<noteq> desclen then Done (Return (- 1))
      else if uint (desc ! 1) < 0x60 \<or> uint (desc ! 1) > 0x6F then Done (Return (- 2))
      else if desclen > 0xC \<and> uint (desc ! 0xC) \<noteq> 9 \<and> uint (desc ! 0xC) \<noteq> 25
        then Done (Return (- 3))
      else Done NoReturn)"
proof -
  have "desclen > 0xC \<Longrightarrow> \<not> length desc \<le> 0xC"
    using assms by linarith
  moreover have "\<not> desclen < 6 \<Longrightarrow> \<not> length desc \<le> 0 \<and> \<not> length desc \<le> 1"
    using assms by linarith
  ultimately show ?thesis
    unfolding ikey2k_parse_desc_def by presburger
qed

subsection \<open>Control-transfer codec\<close>

text \<open>
  Claim C5. For every command and every input (the first \<open>len\<close> bytes of \<open>data\<close>),
  \<^verbatim>\<open>ikey2k_do_send\<close> issues exactly one host-to-device transfer. Its \<open>value\<close> is the
  little-endian 16-bit reading of input bytes 0 and 1, its \<open>index\<close> that of bytes 2 and
  3 (a missing byte leaves zero), so at most four bytes are consumed into the two
  fields. Its payload is the input after the first four bytes, \<open>length input - 4\<close>
  bytes long (truncated subtraction: none when the input has four bytes or fewer); the
  header bytes are not part of it. The transfer's result code is returned unchanged.
\<close>

theorem do_send_header_and_payload:
  assumes "len \<le> length data"
  shows "ikey2k_do_send usb reader w cmd data len =
     (let input = take len data;
          x = \<lparr>x_requesttype = 0x41, x_request = command_code cmd,
                 x_value = le16 (take 2 input), x_index = le16 (take 2 (drop 2 input)),
                 x_data = drop 4 input, x_len = length input - 4, x_timeout = 1000\<rparr>
      in Done (fst (usb w (device reader) x), w @ [Transfer (device reader) x]))"
  using do_send_in_bounds [OF assms, of usb reader w cmd]
  by (simp add: send_xfer_def Let_def)

theorem do_send_header_and_payload_witness:
  "ikey2k_do_send (token_replying 2 []) reader0 [] IKEY2K_CMD_CARD_IO [1, 2, 3, 4, 5, 6] 6 =
     Done (2, [Transfer (Some 0)
                 \<lparr>x_requesttype = 0x41, x_request = 23, x_value = 0x0201, x_index = 0x0403,
                    x_data = [5, 6], x_len = 2, x_timeout = 1000\<rparr>])
   \<and> ikey2k_do_send (token_replying 0 []) reader0 [] IKEY2K_CMD_RESET [7, 8, 9] 3 =
     Done (0, [Transfer (Some 0)
                 \<lparr>x_requesttype = 0x41, x_request = 0, x_value = 0x0807, x_index = 0x0009,
                    x_data = [], x_len = 0, x_timeout = 1000\<rparr>])"
  using do_send_header_and_payload [of 6 "[1, 2, 3, 4, 5, 6]" "token_replying 2 []" reader0
          "[]" IKEY2K_CMD_CARD_IO]
        do_send_header_and_payload [of 3 "[7, 8, 9]" "token_replying 0 []" reader0
          "[]" IKEY2K_CMD_RESET]
  by (simp add: token_replying_def reader0_def Let_def)

subsection \<open>Device command layer\<close>

text \<open>
  Claim C6. \<^verbatim>\<open>ikey2k_do_cmd\<close> first performs the send (\<open>w1\<close> is the history after it, \<open>rc\<close>
  its result). If \<open>rc\<close> is negative, nothing more is transferred and \<open>rc\<close> is returned
  unchanged. If the send succeeded and output was requested (\<open>outdata\<close> is not \<^verbatim>\<open>NULL\<close>
  and \<open>outlen\<close> is not zero), exactly one more transfer follows: the device-to-host
  transfer of the fixed command \<open>IKEY2K_CMD_GET_RESPONSE\<close> with capacity \<open>outlen\<close>, whatever
  \<open>cmd\<close> is, and the result of that recv is returned. If no output was requested, the
  result of the send is returned and nothing more is transferred.
\<close>

theorem do_cmd_send_then_fetch:
  assumes "ikey2k_do_send usb reader w cmd indata inlen = Done (rc, w1)"
  shows "(rc < 0 \<longrightarrow>
            ikey2k_do_cmd usb reader w cmd indata inlen outdata outlen = Done (rc, outdata, w1))
       \<and> (0 \<le> rc \<and> outdata \<noteq> None \<and> outlen \<noteq> 0 \<longrightarrow>
            (\<exists>rc' out'.
               ikey2k_do_recv usb reader w1 IKEY2K_CMD_GET_RESPONSE (the outdata) outlen =
                 Done (rc', out',
                       w1 @ [Transfer (device reader) (recv_xfer IKEY2K_CMD_GET_RESPONSE outlen)])
             \<and> ikey2k_do_cmd usb reader w cmd indata inlen outdata outlen =
                 Done (rc', Some out',
                       w1 @ [Transfer (device reader) (recv_xfer IKEY2K_CMD_GET_RESPONSE outlen)])))
       \<and> (0 \<le> rc \<and> (outdata = None \<or> outlen = 0) \<longrightarrow>
            ikey2k_do_cmd usb reader w cmd indata inlen outdata outlen = Done (rc, outdata, w1))"
  using assms by (auto simp add: ikey2k_do_cmd_def do_recv_eq Let_def)

theorem do_cmd_send_then_fetch_witness:
  "ikey2k_do_cmd (token_replying 3 [0xAA, 0xBB, 0xCC]) reader0 []
       IKEY2K_CMD_GET_STATUS [] 0 (Some []) 8 =
     Done (3, Some [0xAA, 0xBB, 0xCC],
           [Transfer (Some 0) (send_xfer IKEY2K_CMD_GET_STATUS []),
            Transfer (Some 0) (recv_xfer IKEY2K_CMD_GET_RESPONSE 8)])
   \<and> ikey2k_do_cmd (token_replying 3 [0xAA, 0xBB, 0xCC]) reader0 []
       IKEY2K_CMD_LED_CONTROL [1] 1 None 0 =
     Done (3, None, [Transfer (Some 0) (send_xfer IKEY2K_CMD_LED_CONTROL [1])])
   \<and> ikey2k_do_cmd failing_token reader0 [] IKEY2K_CMD_GET_STATUS [] 0 (Some []) 8 =
     Done (- 5, Some [], [Transfer (Some 0) (send_xfer IKEY2K_CMD_GET_STATUS [])])"
  using do_cmd_send_then_fetch [of "token_replying 3 [0xAA, 0xBB, 0xCC]" reader0 "[]"
          IKEY2K_CMD_GET_STATUS "[]" 0 3
          "[Transfer (Some 0) (send_xfer IKEY2K_CMD_GET_STATUS [])]" "Some []" 8]
        do_cmd_send_then_fetch [of "token_replying 3 [0xAA, 0xBB, 0xCC]" reader0 "[]"
          IKEY2K_CMD_LED_CONTROL "[1]" 1 3
          "[Transfer (Some 0) (send_xfer IKEY2K_CMD_LED_CONTROL [1])]" None 0]
        do_cmd_send_then_fetch [of failing_token reader0 "[]"
          IKEY2K_CMD_GET_STATUS "[]" 0 "- 5"
          "[Transfer (Some 0) (send_xfer IKEY2K_CMD_GET_STATUS [])]" "Some []" 8]
  by (simp add: do_send_in_bounds do_recv_eq token_replying_def failing_token_def reader0_def
      Let_def send_xfer_def)

subsection \<open>Card sub-command layer\<close>

text \<open>
  For an input of at most 254 bytes the frame is the sub-command, the argument and the
  whole input, and it is sent with its own length \<open>2 + min 254 inlen\<close>.
\<close>

lemma card_cmd_short_input:
  assumes "inlen \<le> 254" and "inlen \<le> length indata"
  shows "ikey2k_do_card_cmd usb reader w cmd arg1 indata inlen None 0 =
     (let frame = of_nat (card_command_code cmd) # of_int arg1 # take (min 254 inlen) indata;
          x = send_xfer IKEY2K_CMD_CARD_CTL frame
      in Done (fst (usb w (device reader) x), None, w @ [Transfer (device reader) x]))"
proof -
  have "ikey2k_do_send usb reader w IKEY2K_CMD_CARD_CTL
          (of_nat (card_command_code cmd) # of_int arg1 # take inlen indata) (inlen + 2) =
        Done (fst (usb w (device reader) (send_xfer IKEY2K_CMD_CARD_CTL
                (of_nat (card_command_code cmd) # of_int arg1 # take inlen indata))),
              w @ [Transfer (device reader) (send_xfer IKEY2K_CMD_CARD_CTL
                (of_nat (card_command_code cmd) # of_int arg1 # take inlen indata))])"
    using do_send_in_bounds [of "inlen + 2"
        "of_nat (card_command_code cmd) # of_int arg1 # take inlen indata" usb reader w
        IKEY2K_CMD_CARD_CTL] assms
    by simp
  then show ?thesis using assms
    by (cases "inlen = 0") (simp_all add: ikey2k_do_card_cmd_def Let_def min_def)
qed

text \<open>
  Claim C2, at an input of 255 bytes. The claim asks for a frame of
  \<open>2 + min 254 255 = 256\<close> bytes passed on with length 256. The driver copies 254 bytes
  into its 256-byte frame and passes the length \<open>255 + 2 = 257\<close>: after the four header
  bytes the control transfer is asked for 253 payload bytes where the frame holds 252,
  one byte past its end. Sent with the length of the claim, the same frame is one
  transfer with a payload of 252 bytes.
\<close>

theorem card_cmd_overread_255:
  "ikey2k_do_card_cmd usb reader w IKEY2K_CARDCMD_EXCHANGE 0 (replicate 255 0xAA) 255
     outdata outlen = Undefined InvalidRead
   \<and> ikey2k_do_send usb reader w IKEY2K_CMD_CARD_CTL (3 # 0 # replicate 254 0xAA) (255 + 2) =
       Undefined InvalidRead
   \<and> ikey2k_do_send usb reader w IKEY2K_CMD_CARD_CTL (3 # 0 # replicate 254 0xAA)
         (2 + min 254 255) =
       Done (fst (usb w (device reader)
                    (send_xfer IKEY2K_CMD_CARD_CTL (3 # 0 # replicate 254 0xAA))),
             w @ [Transfer (device reader)
                    (send_xfer IKEY2K_CMD_CARD_CTL (3 # 0 # replicate 254 0xAA))])
   \<and> x_len (send_xfer IKEY2K_CMD_CARD_CTL (3 # 0 # replicate 254 0xAA)) = 252"
proof (intro conjI)
  show "ikey2k_do_card_cmd usb reader w IKEY2K_CARDCMD_EXCHANGE 0 (replicate 255 0xAA) 255
          outdata outlen = Undefined InvalidRead"
    by (rule card_cmd_overlong) simp
  have "replicate 254 (0xAA :: byte) = 0xAA # 0xAA # replicate 252 0xAA"
    by (simp add: replicate_Suc [symmetric] del: replicate_Suc)
  moreover have "(255 :: nat) + 2 = Suc (Suc (Suc (Suc 253)))"
    by simp
  ultimately show
    "ikey2k_do_send usb reader w IKEY2K_CMD_CARD_CTL (3 # 0 # replicate 254 0xAA) (255 + 2) =
       Undefined InvalidRead"
    by (simp only: do_send_four) (simp add: usb_control_out_short)
  show "ikey2k_do_send usb reader w IKEY2K_CMD_CARD_CTL (3 # 0 # replicate 254 0xAA)
         (2 + min 254 255) =
       Done (fst (usb w (device reader)
                    (send_xfer IKEY2K_CMD_CARD_CTL (3 # 0 # replicate 254 0xAA))),
             w @ [Transfer (device reader)
                    (send_xfer IKEY2K_CMD_CARD_CTL (3 # 0 # replicate 254 0xAA))])"
    using do_send_in_bounds [of "2 + min 254 255" "3 # 0 # replicate 254 0xAA" usb reader w
        IKEY2K_CMD_CARD_CTL]
    by simp
  show "x_len (send_xfer IKEY2K_CMD_CARD_CTL (3 # 0 # replicate 254 0xAA)) = 252"
    by (simp add: send_xfer_def)
qed

subsection \<open>Descriptor validator\<close>

text \<open>
  The tests of the validator are those of the specification. For a descriptor of
  \<open>desclen\<close> bytes (the buffer holds at least that many) it returns one of its negative
  codes unless \<open>6 \<le> desclen \<le> 0x40\<close>, byte 0 equals \<open>desclen\<close>, byte 1 lies in
  \<open>[0x60, 0x6F]\<close>, and \<open>desclen \<le> 0x0C\<close> or byte \<open>0x0C\<close> is 9 or 25; when all of that holds,
  control reaches the closing brace and nothing is returned. The reader it is given
  does not matter.
\<close>

lemma parse_desc_tests:
  assumes "desclen \<le> int (length desc)"
  shows "(ikey2k_parse_desc reader desc desclen = Done NoReturn) =
           (6 \<le> desclen \<and> desclen \<le> 0x40 \<and> uint (desc ! 0) = desclen \<and>
            0x60 \<le> uint (desc ! 1) \<and> uint (desc ! 1) \<le> 0x6F \<and>
            (desclen \<le> 0xC \<or> uint (desc ! 0xC) = 9 \<or> uint (desc ! 0xC) = 25))
         \<and> (ikey2k_parse_desc reader desc desclen \<noteq> Done NoReturn \<longrightarrow>
              (\<exists>c<0. ikey2k_parse_desc reader desc desclen = Done (Return c)))
         \<and> ikey2k_parse_desc reader desc desclen = ikey2k_parse_desc reader' desc desclen"
proof (intro conjI)
  show "(ikey2k_parse_desc reader desc desclen = Done NoReturn) =
           (6 \<le> desclen \<and> desclen \<le> 0x40 \<and> uint (desc ! 0) = desclen \<and>
            0x60 \<le> uint (desc ! 1) \<and> uint (desc ! 1) \<le> 0x6F \<and>
            (desclen \<le> 0xC \<or> uint (desc ! 0xC) = 9 \<or> uint (desc ! 0xC) = 25))"
    unfolding parse_desc_in_bounds [OF assms] by (simp add: not_less)
  show "ikey2k_parse_desc reader desc desclen \<noteq> Done NoReturn \<longrightarrow>
              (\<exists>c<0. ikey2k_parse_desc reader desc desclen = Done (Return c))"
    unfolding parse_desc_in_bounds [OF assms] by simp
  show "ikey2k_parse_desc reader desc desclen = ikey2k_parse_desc reader' desc desclen"
    by (simp add: ikey2k_parse_desc_def)
qed

lemma parse_desc_tests_examples:
  "ikey2k_parse_desc reader0 example_desc 13 = Done NoReturn
   \<and> ikey2k_parse_desc reader0 bad_length_desc 13 = Done (Return (- 1))
   \<and> ikey2k_parse_desc reader0 [0x06, 0x70, 0, 0, 0, 0] 6 = Done (Return (- 2))
   \<and> ikey2k_parse_desc reader0 (example_desc [12 := 0x10]) 13 = Done (Return (- 3))
   \<and> ikey2k_parse_desc reader0 (example_desc [12 := 0x09]) 13 = Done NoReturn
   \<and> ikey2k_parse_desc reader0 [0x06, 0x6F, 0, 0, 0, 0] 6 = Done NoReturn"
  using parse_desc_tests [of 13 example_desc reader0 reader0]
        parse_desc_tests [of 13 bad_length_desc reader0 reader0]
  by (simp add: example_desc_def bad_length_desc_def ikey2k_parse_desc_def)

text \<open>
  Claim C3, at the descriptor of the source's comment, thirteen bytes that pass every
  test of the claim. The claim asks the validator to accept it and to return an
  accept/reject verdict. \<^verbatim>\<open>ikey2k_parse_desc\<close> reaches its closing brace there: the function
  has no \<^verbatim>\<open>return\<close> after its last test, so no verdict is returned. On no input at all does
  it return 0 or any other value that is not negative: whatever the descriptor, the
  call reads a byte without a value, falls off the end, or returns \<open>-1\<close>, \<open>-2\<close> or \<open>-3\<close>.
  Its only caller, \<^verbatim>\<open>ikey2k_activate\<close>, uses the value of the call, which this descriptor
  leaves without a meaning.
\<close>

theorem parse_desc_no_accept_verdict:
  "ikey2k_parse_desc reader0 example_desc 13 = Done NoReturn
   \<and> ikey2k_parse_desc reader desc desclen \<in>
       {Undefined InvalidRead, Done NoReturn,
        Done (Return (- 1)), Done (Return (- 2)), Done (Return (- 3))}
   \<and> ikey2k_activate (token_replying 13 example_desc) reader0 [] = Undefined NoReturnValue"
proof (intro conjI)
  show "ikey2k_parse_desc reader0 example_desc 13 = Done NoReturn"
    by (simp add: ikey2k_parse_desc_def example_desc_def)
  show "ikey2k_parse_desc reader desc desclen \<in>
       {Undefined InvalidRead, Done NoReturn,
        Done (Return (- 1)), Done (Return (- 2)), Done (Return (- 3))}"
    by (simp add: ikey2k_parse_desc_def)
  show "ikey2k_activate (token_replying 13 example_desc) reader0 [] = Undefined NoReturnValue"
    by (simp add: ikey2k_activate_def do_recv_eq ikey2k_parse_desc_def example_desc_def
        token_replying_def reader0_def Let_def)
qed

subsection \<open>Reader session: the validator's verdict at activation, raw send and receive\<close>

text \<open>
  Whenever the recv of \<^verbatim>\<open>ikey2k_activate\<close> delivers a positive length and the validator
  returns one of its rejection codes, \<^verbatim>\<open>ikey2k_activate\<close> returns 0 and reports nothing.
\<close>

lemma activate_on_rejection:
  assumes "ikey2k_do_recv usb reader w IKEY2K_CMD_RESET [] 256 = Done (desclen, buffer, w1)"
      and "0 < desclen"
      and "ikey2k_parse_desc reader buffer desclen = Done (Return c)" and "c \<noteq> 0"
  shows "ikey2k_activate usb reader w = Done (0, w1)"
  using assms by (simp add: ikey2k_activate_def)

text \<open>
  Claim C1, at a token that answers the reset with thirteen bytes whose length byte is
  12. The validator rejects the descriptor with \<open>-1\<close>; the claim asks \<^verbatim>\<open>ikey2k_activate\<close>
  to fail. It returns 0 and reports no error: \<^verbatim>\<open>!ikey2k_parse_desc(...)\<close> is false for
  every rejection code. For the descriptor of the source's comment, which the validator
  accepts, the call has no value to negate.
\<close>

theorem activate_succeeds_on_rejected_desc:
  "ikey2k_parse_desc reader0 bad_length_desc 13 = Done (Return (- 1))
   \<and> ikey2k_activate (token_replying 13 bad_length_desc) reader0 [] =
       Done (0, [Transfer (Some 0) (recv_xfer IKEY2K_CMD_RESET 256)])
   \<and> ikey2k_parse_desc reader0 example_desc 13 = Done NoReturn
   \<and> ikey2k_activate (token_replying 13 example_desc) reader0 [] = Undefined NoReturnValue"
  by (simp add: ikey2k_activate_def do_recv_eq ikey2k_parse_desc_def bad_length_desc_def
      example_desc_def token_replying_def reader0_def Let_def)

text \<open>
  Claim C9. \<^verbatim>\<open>ikey2k_send\<close> is \<^verbatim>\<open>ikey2k_do_card_send\<close> on the same buffer and length, and
  \<^verbatim>\<open>ikey2k_recv\<close> is \<^verbatim>\<open>ikey2k_do_card_recv\<close>: two runs that differ only in \<open>dad\<close>, or only in
  \<open>dad\<close> and \<open>timeout\<close> for a recv, give the same result and the same history, hence the
  same transfers. The transfer of a recv carries the fixed timeout of 1000 ms.
\<close>

theorem session_send_recv_passthrough:
  "ikey2k_send usb reader w dad buffer len = ikey2k_do_card_send usb reader w buffer len
   \<and> ikey2k_send usb reader w dad buffer len = ikey2k_send usb reader w dad' buffer len
   \<and> ikey2k_recv usb reader w dad buffer len timeout =
       ikey2k_do_card_recv usb reader w buffer len
   \<and> ikey2k_recv usb reader w dad buffer len timeout =
       ikey2k_recv usb reader w dad' buffer len timeout'
   \<and> (\<exists>rc buffer'. ikey2k_recv usb reader w dad buffer len timeout =
         Done (rc, buffer',
               w @ [Transfer (device reader) (recv_xfer IKEY2K_CMD_GET_RESPONSE len)]))"
  by (simp add: ikey2k_send_def ikey2k_recv_def ikey2k_do_card_recv_def do_recv_eq Let_def)

subsection \<open>Card sub-commands without input, read off the history\<close>

lemma byte_bit8: "bit (a :: byte) n \<Longrightarrow> n < 8"
  using bit_imp_le_length [of a n] by simp

lemma le16_low:
  "(ucast (a :: byte) OR push_bit 8 (ucast (b :: byte)) :: 16 word) AND 0xFF = ucast a"
proof -
  have m: "(0xFF :: 16 word) = mask 8" by (simp add: mask_eq_exp_minus_1)
  show ?thesis unfolding m
    by (rule bit_word_eqI) (auto simp add: bit_simps dest: byte_bit8)
qed

lemma le16_high:
  "drop_bit 8 (ucast (a :: byte) OR push_bit 8 (ucast (b :: byte)) :: 16 word) = ucast b"
  by (rule bit_word_eqI) (auto simp add: bit_simps dest: byte_bit8)

lemma unat_ucast_byte: "unat (ucast (a :: byte) :: 16 word) = unat a"
proof -
  have "unat a < 2 ^ 8" using unsigned_less [of a] by simp
  then have "unat a < 2 ^ 16" by simp
  then show ?thesis by (simp add: unsigned_ucast_eq take_bit_nat_eq_self)
qed

lemma le16_high_simp:
  "drop_bit 8 (ucast (a :: byte) :: 16 word) OR drop_bit 8 (push_bit 8 (ucast (b :: byte))) =
     ucast b"
  using le16_high [of a b] by simp

lemma card_call_of_card_ctl:
  "card_call_of (Transfer dev (send_xfer IKEY2K_CMD_CARD_CTL [a, b])) = Some (unat a, unat b)"
  by (simp add: send_xfer_def le16_low le16_high_simp unat_ucast_byte)

lemma card_call_of_recv: "card_call_of (Transfer dev (recv_xfer cmd n)) = None"
  by (simp add: recv_xfer_def)

lemma card_calls_append: "card_calls (a @ b) = card_calls a @ card_calls b"
  by (simp add: card_calls_def map_filter_def)

lemma card_calls_Nil: "card_calls [] = []"
  by (simp add: card_calls_def map_filter_def)

lemma card_calls_Cons:
  "card_calls (e # w) =
     (case card_call_of e of None \<Rightarrow> card_calls w | Some c \<Rightarrow> c # card_calls w)"
  by (simp add: card_calls_def map_filter_def split: option.splits)

lemma transfers_simps:
  "transfers [] = []"
  "transfers (Transfer dev x # w) = x # transfers w"
  "transfers (CtError m args # w) = transfers w"
  "transfers (w1 @ w2) = transfers w1 @ transfers w2"
  by (simp_all add: transfers_def map_filter_def)

lemma do_card_cmd_no_input:
  "ikey2k_do_card_cmd usb reader w cmd arg1 indata 0 outdata outlen =
     (let xs = send_xfer IKEY2K_CMD_CARD_CTL [of_nat (card_command_code cmd), of_int arg1];
          rc = fst (usb w (device reader) xs);
          w1 = w @ [Transfer (device reader) xs]
      in if rc \<ge> 0 \<and> outdata \<noteq> None \<and> outlen \<noteq> 0 then
           let xr = recv_xfer IKEY2K_CMD_GET_RESPONSE outlen;
               r = usb w1 (device reader) xr;
               n = min outlen (length (snd r))
           in Done (fst r, Some (take n (snd r) @ drop n (the outdata)),
                    w1 @ [Transfer (device reader) xr])
         else Done (rc, outdata, w1))"
proof -
  have "ikey2k_do_send usb reader w IKEY2K_CMD_CARD_CTL
          [of_nat (card_command_code cmd), of_int arg1] (0 + 2) =
        Done (fst (usb w (device reader) (send_xfer IKEY2K_CMD_CARD_CTL
                [of_nat (card_command_code cmd), of_int arg1])),
              w @ [Transfer (device reader) (send_xfer IKEY2K_CMD_CARD_CTL
                [of_nat (card_command_code cmd), of_int arg1])])"
    using do_send_in_bounds [of "0 + 2" "[of_nat (card_command_code cmd), of_int arg1]"
        usb reader w IKEY2K_CMD_CARD_CTL]
    by simp
  then show ?thesis
    by (simp add: ikey2k_do_card_cmd_def do_recv_eq Let_def)
qed

text \<open>A sub-command without input adds one send and at most one recv to the history.\<close>

lemma do_card_cmd_no_input_world:
  assumes "ikey2k_do_card_cmd usb reader w cmd arg1 indata 0 (Some out) outlen = Done (rc, out', w1)"
  shows "(\<exists>b. out' = Some b)
       \<and> (w1 = w @ [Transfer (device reader) (send_xfer IKEY2K_CMD_CARD_CTL
                     [of_nat (card_command_code cmd), of_int arg1])]
          \<or> w1 = w @ [Transfer (device reader) (send_xfer IKEY2K_CMD_CARD_CTL
                     [of_nat (card_command_code cmd), of_int arg1]),
                    Transfer (device reader) (recv_xfer IKEY2K_CMD_GET_RESPONSE outlen)])"
  using assms unfolding do_card_cmd_no_input
  by (auto simp add: Let_def split: if_splits)

lemma do_card_cmd_no_input_calls:
  assumes "ikey2k_do_card_cmd usb reader w cmd arg1 indata 0 (Some out) outlen = Done (rc, out', w1)"
  shows "\<exists>new. w1 = w @ new \<and> card_calls new = [(unat (of_nat (card_command_code cmd) :: byte), unat (of_int arg1 :: byte))]"
  using do_card_cmd_no_input_world [OF assms]
  by (auto simp add: card_calls_Cons card_calls_Nil card_call_of_card_ctl card_call_of_recv
      simp del: card_call_of.simps)

lemma do_card_cmd_no_input_total:
  "\<exists>rc b w1. ikey2k_do_card_cmd usb reader w cmd arg1 indata 0 (Some out) outlen = Done (rc, Some b, w1)"
  unfolding do_card_cmd_no_input by (simp add: Let_def)

subsection \<open>Reader session: card reset\<close>

text \<open>
  \<^verbatim>\<open>ikey2k_card_reset\<close> gives up right after the card-reset sub-command unless that
  returned 1 and left a zero in byte 0 of the buffer.
\<close>

lemma card_reset_without_reset:
  assumes "ikey2k_do_card_cmd usb reader w IKEY2K_CARDCMD_RESET 0 [] 0 (Some []) 2 =
             Done (rc, out, w1)"
      and "rc \<noteq> 1 \<or> (\<exists>b0 rest. deref out = b0 # rest \<and> b0 \<noteq> 0)"
  shows "ikey2k_card_reset usb reader w slot atr atr_size =
           Done (- 1, atr, w1 @ [CtError ''ikey2k: failed to activate token'' []])"
  using assms by (auto simp add: ikey2k_card_reset_def)

lemma deref_Cons: "deref out = b # rest \<Longrightarrow> out = Some (b # rest)"
  by (cases out) simp_all

text \<open>
  Claim C8. Let the card-reset sub-command at the start of \<^verbatim>\<open>ikey2k_card_reset\<close> return
  \<open>rc\<close> and leave \<open>out\<close> in the buffer. Whenever \<open>rc\<close> is not 1, or byte 0 of the response
  is not 0 (for example when the sub-command returns 0 bytes), \<^verbatim>\<open>ikey2k_card_reset\<close> reports
  the failure and returns \<open>-1\<close>, the caller's ATR buffer is untouched, and the only card
  sub-command among the events of the call is the reset itself: no
  \<open>IKEY2K_CARDCMD_GET_ATR\<close> transfer is issued. (When \<open>rc\<close> is 1 and the token delivered no
  byte, the driver reads a byte without a value; the hypothesis leaves that case out.)
\<close>

theorem card_reset_failed_no_atr:
  assumes "ikey2k_do_card_cmd usb reader w IKEY2K_CARDCMD_RESET 0 [] 0 (Some []) 2 =
             Done (rc, out, w1)"
      and "rc \<noteq> 1 \<or> (\<exists>b0 rest. deref out = b0 # rest \<and> b0 \<noteq> 0)"
  shows "ikey2k_card_reset usb reader w slot atr atr_size =
           Done (- 1, atr, w1 @ [CtError ''ikey2k: failed to activate token'' []])
       \<and> card_calls
           (drop (length w) (w1 @ [CtError ''ikey2k: failed to activate token'' []])) =
           [(card_command_code IKEY2K_CARDCMD_RESET, 0)]
       \<and> (\<forall>c \<in> set (card_calls
                (drop (length w) (w1 @ [CtError ''ikey2k: failed to activate token'' []]))).
            fst c \<noteq> card_command_code IKEY2K_CARDCMD_GET_ATR)"
proof -
  obtain new where new: "w1 = w @ new" and calls: "card_calls new = [(0, 0)]"
    using do_card_cmd_no_input_calls [OF assms(1)] by auto
  have r: "ikey2k_card_reset usb reader w slot atr atr_size =
           Done (- 1, atr, w1 @ [CtError ''ikey2k: failed to activate token'' []])"
    using assms by (rule card_reset_without_reset)
  have c: "card_calls
             (drop (length w) (w1 @ [CtError ''ikey2k: failed to activate token'' []])) =
           [(0, 0)]"
    using calls by (simp add: new card_calls_append card_calls_Cons card_calls_Nil)
  show ?thesis using r c by simp
qed

theorem card_reset_failed_no_atr_witness:
  "ikey2k_card_reset (token_replying 0 []) reader0 [] 0 [] 32 =
     Done (- 1, [],
           [Transfer (Some 0) (send_xfer IKEY2K_CMD_CARD_CTL [0, 0]),
            Transfer (Some 0) (recv_xfer IKEY2K_CMD_GET_RESPONSE 2),
            CtError ''ikey2k: failed to activate token'' []])
   \<and> ikey2k_card_reset (token_replying 1 [5]) reader0 [] 0 [] 32 =
     Done (- 1, [],
           [Transfer (Some 0) (send_xfer IKEY2K_CMD_CARD_CTL [0, 0]),
            Transfer (Some 0) (recv_xfer IKEY2K_CMD_GET_RESPONSE 2),
            CtError ''ikey2k: failed to activate token'' []])"
  using card_reset_failed_no_atr [of "token_replying 0 []" reader0 "[]" 0 "Some []"
          "[Transfer (Some 0) (send_xfer IKEY2K_CMD_CARD_CTL [0, 0]),
            Transfer (Some 0) (recv_xfer IKEY2K_CMD_GET_RESPONSE 2)]" 0 "[]" 32]
        card_reset_failed_no_atr [of "token_replying 1 [5]" reader0 "[]" 1 "Some [5]"
          "[Transfer (Some 0) (send_xfer IKEY2K_CMD_CARD_CTL [0, 0]),
            Transfer (Some 0) (recv_xfer IKEY2K_CMD_GET_RESPONSE 2)]" 0 "[]" 32]
  by (simp add: do_card_cmd_no_input token_replying_def reader0_def Let_def)

text \<open>
  After a card reset that returned 1 with a zero in byte 0, the outcome of
  \<^verbatim>\<open>ikey2k_card_reset\<close> in terms of the sub-command that requests 25 bytes of ATR and,
  where it is made, the one that requests 9.
\<close>

lemma card_reset_after_reset:
  assumes reset: "ikey2k_do_card_cmd usb reader w IKEY2K_CARDCMD_RESET 0 [] 0 (Some []) 2 =
                    Done (1, Some (0 # rest), w1)"
      and atr25: "ikey2k_do_card_cmd usb reader w1 IKEY2K_CARDCMD_GET_ATR 25 (0 # rest) 0
                    (Some (0 # rest)) 25 = Done (n25, Some buf25, w2)"
  shows "transfers (drop (length w1) w2) \<in>
           {[send_xfer IKEY2K_CMD_CARD_CTL [1, 25]],
            [send_xfer IKEY2K_CMD_CARD_CTL [1, 25], recv_xfer IKEY2K_CMD_GET_RESPONSE 25]}
       \<and> (n25 = 25 \<longrightarrow>
            ikey2k_card_reset usb reader w slot atr atr_size = atr_verdict 25 buf25 w2 atr atr_size
          \<and> card_calls (drop (length w) w2) =
              [(card_command_code IKEY2K_CARDCMD_RESET, 0),
               (card_command_code IKEY2K_CARDCMD_GET_ATR, 25)])
       \<and> (n25 \<noteq> 25 \<longrightarrow>
            (\<exists>n9 buf9 w3.
               ikey2k_do_card_cmd usb reader w2 IKEY2K_CARDCMD_GET_ATR 9 buf25 0 (Some buf25) 9 =
                 Done (n9, Some buf9, w3)
             \<and> transfers (drop (length w2) w3) \<in>
                 {[send_xfer IKEY2K_CMD_CARD_CTL [1, 9]],
                  [send_xfer IKEY2K_CMD_CARD_CTL [1, 9], recv_xfer IKEY2K_CMD_GET_RESPONSE 9]}
             \<and> ikey2k_card_reset usb reader w slot atr atr_size =
                 atr_verdict n9 buf9 w3 atr atr_size
             \<and> card_calls (drop (length w) w3) =
                 [(card_command_code IKEY2K_CARDCMD_RESET, 0),
                  (card_command_code IKEY2K_CARDCMD_GET_ATR, 25),
                  (card_command_code IKEY2K_CARDCMD_GET_ATR, 9)]))"
proof -
  obtain new1 where new1: "w1 = w @ new1" and calls1: "card_calls new1 = [(0, 0)]"
    using do_card_cmd_no_input_calls [OF reset] by auto
  obtain new2 where new2: "w2 = w1 @ new2" and calls2: "card_calls new2 = [(1, 25)]"
    using do_card_cmd_no_input_calls [OF atr25] by auto
  have c2: "card_calls (drop (length w) w2) = [(0, 0), (1, 25)]"
    by (simp add: new1 new2 card_calls_append calls1 calls2)
  have t2: "transfers (drop (length w1) w2) \<in>
           {[send_xfer IKEY2K_CMD_CARD_CTL [1, 25]],
            [send_xfer IKEY2K_CMD_CARD_CTL [1, 25], recv_xfer IKEY2K_CMD_GET_RESPONSE 25]}"
    using do_card_cmd_no_input_world [OF atr25] by (auto simp add: transfers_simps)
  obtain n9 buf9 w3 where atr9:
    "ikey2k_do_card_cmd usb reader w2 IKEY2K_CARDCMD_GET_ATR 9 buf25 0 (Some buf25) 9 =
       Done (n9, Some buf9, w3)"
    using do_card_cmd_no_input_total [of usb reader w2 IKEY2K_CARDCMD_GET_ATR 9 buf25 buf25 9]
    by auto
  obtain new3 where new3: "w3 = w2 @ new3" and calls3: "card_calls new3 = [(1, 9)]"
    using do_card_cmd_no_input_calls [OF atr9] by auto
  have c3: "card_calls (drop (length w) w3) = [(0, 0), (1, 25), (1, 9)]"
    by (simp add: new1 new2 new3 card_calls_append calls1 calls2 calls3)
  have t3: "transfers (drop (length w2) w3) \<in>
                 {[send_xfer IKEY2K_CMD_CARD_CTL [1, 9]],
                  [send_xfer IKEY2K_CMD_CARD_CTL [1, 9], recv_xfer IKEY2K_CMD_GET_RESPONSE 9]}"
    using do_card_cmd_no_input_world [OF atr9] by (auto simp add: transfers_simps)
  have a: "n25 = 25 \<Longrightarrow>
      ikey2k_card_reset usb reader w slot atr atr_size = atr_verdict 25 buf25 w2 atr atr_size"
    using reset atr25 by (simp add: ikey2k_card_reset_def atr_verdict_def not_less not_le)
  have b: "n25 \<noteq> 25 \<Longrightarrow>
      ikey2k_card_reset usb reader w slot atr atr_size = atr_verdict n9 buf9 w3 atr atr_size"
    using reset atr25 atr9 by (simp add: ikey2k_card_reset_def atr_verdict_def not_less not_le)
  show ?thesis
  proof (intro conjI impI)
    show "transfers (drop (length w1) w2) \<in>
           {[send_xfer IKEY2K_CMD_CARD_CTL [1, 25]],
            [send_xfer IKEY2K_CMD_CARD_CTL [1, 25], recv_xfer IKEY2K_CMD_GET_RESPONSE 25]}"
      by (rule t2)
    show "n25 = 25 \<Longrightarrow>
      ikey2k_card_reset usb reader w slot atr atr_size = atr_verdict 25 buf25 w2 atr atr_size"
      by (rule a)
    show "card_calls (drop (length w) w2) =
              [(card_command_code IKEY2K_CARDCMD_RESET, 0),
               (card_command_code IKEY2K_CARDCMD_GET_ATR, 25)]"
      using c2 by simp
    assume "n25 \<noteq> 25"
    then show "\<exists>n9 buf9 w3.
               ikey2k_do_card_cmd usb reader w2 IKEY2K_CARDCMD_GET_ATR 9 buf25 0 (Some buf25) 9 =
                 Done (n9, Some buf9, w3)
             \<and> transfers (drop (length w2) w3) \<in>
                 {[send_xfer IKEY2K_CMD_CARD_CTL [1, 9]],
                  [send_xfer IKEY2K_CMD_CARD_CTL [1, 9], recv_xfer IKEY2K_CMD_GET_RESPONSE 9]}
             \<and> ikey2k_card_reset usb reader w slot atr atr_size =
                 atr_verdict n9 buf9 w3 atr atr_size
             \<and> card_calls (drop (length w) w3) =
                 [(card_command_code IKEY2K_CARDCMD_RESET, 0),
                  (card_command_code IKEY2K_CARDCMD_GET_ATR, 25),
                  (card_command_code IKEY2K_CARDCMD_GET_ATR, 9)]"
      using atr9 t3 b c3 by (intro exI [of _ n9] exI [of _ buf9] exI [of _ w3]) simp
  qed
qed

lemma atr_token_reset:
  "ikey2k_do_card_cmd (atr_token n) reader0 [] IKEY2K_CARDCMD_RESET 0 [] 0 (Some []) 2 =
     Done (1, Some [0],
           [Transfer (Some 0) (send_xfer IKEY2K_CMD_CARD_CTL [0, 0]),
            Transfer (Some 0) (recv_xfer IKEY2K_CMD_GET_RESPONSE 2)])"
  by (simp add: do_card_cmd_no_input atr_token_def reader0_def Let_def send_xfer_def recv_xfer_def)

text \<open>
  Claim C4. Let the card-reset sub-command at the start of \<^verbatim>\<open>ikey2k_card_reset\<close> return
  \<open>rc\<close> and leave \<open>out\<close> in the buffer. Unless \<open>rc\<close> is exactly 1 and byte 0 of the
  response is 0, the call fails. Otherwise the ATR is requested with argument 25 and
  capacity 25: one send of \<open>(GET_ATR, 25)\<close> and at most one fetch, of capacity 25. If
  that returns 25, no further sub-command is issued and the verdict is taken on these
  25 bytes. If it returns anything else, exactly one fallback sub-command follows, with
  argument 9 and capacity 9, and the verdict is taken on its result. In both cases the
  final ATR is accepted if and only if its returned length lies within \<open>[9, atr_size]\<close>
  (\<open>atr_verdict\<close>); a 25-byte ATR is therefore accepted when the caller's buffer has
  room for 25 bytes.
\<close>

theorem card_reset_atr_negotiation:
  assumes reset: "ikey2k_do_card_cmd usb reader w IKEY2K_CARDCMD_RESET 0 [] 0 (Some []) 2 =
                    Done (rc, out, w1)"
  shows "(rc \<noteq> 1 \<or> (\<exists>b0 rest. deref out = b0 # rest \<and> b0 \<noteq> 0) \<longrightarrow>
            ikey2k_card_reset usb reader w slot atr atr_size =
              Done (- 1, atr, w1 @ [CtError ''ikey2k: failed to activate token'' []]))
       \<and> (rc = 1 \<and> (\<exists>rest. deref out = 0 # rest) \<longrightarrow>
            (\<exists>n25 buf25 w2.
               ikey2k_do_card_cmd usb reader w1 IKEY2K_CARDCMD_GET_ATR 25 (deref out) 0 out 25 =
                 Done (n25, Some buf25, w2)
             \<and> transfers (drop (length w1) w2) \<in>
                 {[send_xfer IKEY2K_CMD_CARD_CTL [1, 25]],
                  [send_xfer IKEY2K_CMD_CARD_CTL [1, 25], recv_xfer IKEY2K_CMD_GET_RESPONSE 25]}
             \<and> (n25 = 25 \<longrightarrow>
                  ikey2k_card_reset usb reader w slot atr atr_size =
                    atr_verdict 25 buf25 w2 atr atr_size
                \<and> card_calls (drop (length w) w2) =
                    [(card_command_code IKEY2K_CARDCMD_RESET, 0),
                     (card_command_code IKEY2K_CARDCMD_GET_ATR, 25)])
             \<and> (n25 \<noteq> 25 \<longrightarrow>
                  (\<exists>n9 buf9 w3.
                     ikey2k_do_card_cmd usb reader w2 IKEY2K_CARDCMD_GET_ATR 9 buf25 0
                       (Some buf25) 9 = Done (n9, Some buf9, w3)
                   \<and> transfers (drop (length w2) w3) \<in>
                       {[send_xfer IKEY2K_CMD_CARD_CTL [1, 9]],
                        [send_xfer IKEY2K_CMD_CARD_CTL [1, 9],
                         recv_xfer IKEY2K_CMD_GET_RESPONSE 9]}
                   \<and> ikey2k_card_reset usb reader w slot atr atr_size =
                       atr_verdict n9 buf9 w3 atr atr_size
                   \<and> card_calls (drop (length w) w3) =
                       [(card_command_code IKEY2K_CARDCMD_RESET, 0),
                        (card_command_code IKEY2K_CARDCMD_GET_ATR, 25),
                        (card_command_code IKEY2K_CARDCMD_GET_ATR, 9)]))))"
proof (intro conjI impI)
  assume "rc \<noteq> 1 \<or> (\<exists>b0 rest. deref out = b0 # rest \<and> b0 \<noteq> 0)"
  then show "ikey2k_card_reset usb reader w slot atr atr_size =
              Done (- 1, atr, w1 @ [CtError ''ikey2k: failed to activate token'' []])"
    by (rule card_reset_without_reset [OF reset])
next
  assume ok: "rc = 1 \<and> (\<exists>rest. deref out = 0 # rest)"
  then obtain rest where out: "out = Some (0 # rest)" and rc: "rc = 1"
    by (auto dest: deref_Cons)
  obtain n25 buf25 w2 where atr25:
    "ikey2k_do_card_cmd usb reader w1 IKEY2K_CARDCMD_GET_ATR 25 (0 # rest) 0
       (Some (0 # rest)) 25 = Done (n25, Some buf25, w2)"
    using do_card_cmd_no_input_total
      [of usb reader w1 IKEY2K_CARDCMD_GET_ATR 25 "0 # rest" "0 # rest" 25]
    by auto
  show "\<exists>n25 buf25 w2.
               ikey2k_do_card_cmd usb reader w1 IKEY2K_CARDCMD_GET_ATR 25 (deref out) 0 out 25 =
                 Done (n25, Some buf25, w2)
             \<and> transfers (drop (length w1) w2) \<in>
                 {[send_xfer IKEY2K_CMD_CARD_CTL [1, 25]],
                  [send_xfer IKEY2K_CMD_CARD_CTL [1, 25], recv_xfer IKEY2K_CMD_GET_RESPONSE 25]}
             \<and> (n25 = 25 \<longrightarrow>
                  ikey2k_card_reset usb reader w slot atr atr_size =
                    atr_verdict 25 buf25 w2 atr atr_size
                \<and> card_calls (drop (length w) w2) =
                    [(card_command_code IKEY2K_CARDCMD_RESET, 0),
                     (card_command_code IKEY2K_CARDCMD_GET_ATR, 25)])
             \<and> (n25 \<noteq> 25 \<longrightarrow>
                  (\<exists>n9 buf9 w3.
                     ikey2k_do_card_cmd usb reader w2 IKEY2K_CARDCMD_GET_ATR 9 buf25 0
                       (Some buf25) 9 = Done (n9, Some buf9, w3)
                   \<and> transfers (drop (length w2) w3) \<in>
                       {[send_xfer IKEY2K_CMD_CARD_CTL [1, 9]],
                        [send_xfer IKEY2K_CMD_CARD_CTL [1, 9],
                         recv_xfer IKEY2K_CMD_GET_RESPONSE 9]}
                   \<and> ikey2k_card_reset usb reader w slot atr atr_size =
                       atr_verdict n9 buf9 w3 atr atr_size
                   \<and> card_calls (drop (length w) w3) =
                       [(card_command_code IKEY2K_CARDCMD_RESET, 0),
                        (card_command_code IKEY2K_CARDCMD_GET_ATR, 25),
                        (card_command_code IKEY2K_CARDCMD_GET_ATR, 9)]))"
    using card_reset_after_reset [OF reset [unfolded out rc] atr25, of slot atr atr_size] atr25
    unfolding out deref.simps
    by (intro exI [of _ n25] exI [of _ buf25] exI [of _ w2]) simp
qed

theorem card_reset_atr_negotiation_witness:
  "ikey2k_card_reset (atr_token 25) reader0 [] 0 [] 32 =
     Done (25, replicate 25 0x3B,
           [Transfer (Some 0) (send_xfer IKEY2K_CMD_CARD_CTL [0, 0]),
            Transfer (Some 0) (recv_xfer IKEY2K_CMD_GET_RESPONSE 2),
            Transfer (Some 0) (send_xfer IKEY2K_CMD_CARD_CTL [1, 25]),
            Transfer (Some 0) (recv_xfer IKEY2K_CMD_GET_RESPONSE 25)])
   \<and> ikey2k_card_reset (atr_token 9) reader0 [] 0 [] 32 =
     Done (9, replicate 9 0x3F,
           [Transfer (Some 0) (send_xfer IKEY2K_CMD_CARD_CTL [0, 0]),
            Transfer (Some 0) (recv_xfer IKEY2K_CMD_GET_RESPONSE 2),
            Transfer (Some 0) (send_xfer IKEY2K_CMD_CARD_CTL [1, 25]),
            Transfer (Some 0) (recv_xfer IKEY2K_CMD_GET_RESPONSE 25),
            Transfer (Some 0) (send_xfer IKEY2K_CMD_CARD_CTL [1, 9]),
            Transfer (Some 0) (recv_xfer IKEY2K_CMD_GET_RESPONSE 9)])
   \<and> ikey2k_card_reset (atr_token 9) reader0 [] 0 [] 8 =
     Done (- 1, [],
           [Transfer (Some 0) (send_xfer IKEY2K_CMD_CARD_CTL [0, 0]),
            Transfer (Some 0) (recv_xfer IKEY2K_CMD_GET_RESPONSE 2),
            Transfer (Some 0) (send_xfer IKEY2K_CMD_CARD_CTL [1, 25]),
            Transfer (Some 0) (recv_xfer IKEY2K_CMD_GET_RESPONSE 25),
            Transfer (Some 0) (send_xfer IKEY2K_CMD_CARD_CTL [1, 9]),
            Transfer (Some 0) (recv_xfer IKEY2K_CMD_GET_RESPONSE 9),
            CtError ''ikey2k: failed to activate token'' []])
   \<and> ikey2k_card_reset (token_replying 1 [5]) reader0 [] 0 [] 32 =
     Done (- 1, [],
           [Transfer (Some 0) (send_xfer IKEY2K_CMD_CARD_CTL [0, 0]),
            Transfer (Some 0) (recv_xfer IKEY2K_CMD_GET_RESPONSE 2),
            CtError ''ikey2k: failed to activate token'' []])"
  using card_reset_atr_negotiation [OF atr_token_reset, of 25 0 "[]" 32]
        card_reset_atr_negotiation [OF atr_token_reset, of 9 0 "[]" 32]
        card_reset_atr_negotiation [OF atr_token_reset, of 9 0 "[]" 8]
        card_reset_atr_negotiation [of "token_replying 1 [5]" reader0 "[]" 1 "Some [5]"
          "[Transfer (Some 0) (send_xfer IKEY2K_CMD_CARD_CTL [0, 0]),
            Transfer (Some 0) (recv_xfer IKEY2K_CMD_GET_RESPONSE 2)]" 0 "[]" 32]
  by (simp add: atr_verdict_def do_card_cmd_no_input atr_token_def token_replying_def
      reader0_def Let_def send_xfer_def recv_xfer_def)

subsection \<open>Reader session: the transfers of an activation\<close>





subsection \<open>Reader session: opening the reader\<close>

text \<open>
  Claim C10. Whatever \<^verbatim>\<open>ikey2k_open\<close> returns, the reader's name is
  \<open>''Rainbow Technologies iKey 2032''\<close> and its slot count is 1: both are written before
  the device is opened, so they are set on every failure too. The return code is 0 or
  \<open>-1\<close>. On failure the reader differs from the one passed in by these two fields only
  (\<open>device\<close> and every other field keep their values); if no handle was acquired the call
  into the device layer is the only event, and if one was acquired the events of the
  call end with closing that handle. On success the handle is stored in \<open>device\<close> and is
  not closed.
\<close>

theorem open_frame:
  assumes "ikey2k_open fw reader w device_name = (rc, reader', w')"
  shows "name reader' = ''Rainbow Technologies iKey 2032'' \<and> nslots reader' = 1
       \<and> (rc = 0 \<or> rc = - 1)
       \<and> (rc \<noteq> 0 \<longrightarrow>
            reader' = reader\<lparr>name := ''Rainbow Technologies iKey 2032'', nslots := 1\<rparr>
          \<and> (case ifd_device_open fw w device_name of
               None \<Rightarrow> w' = w @ [DeviceOpen device_name None]
             | Some dev \<Rightarrow>
                 (\<exists>mid. w' = w @ DeviceOpen device_name (Some dev) # mid @ [DeviceClose dev])))
       \<and> (rc = 0 \<longrightarrow>
            (\<exists>dev. ifd_device_open fw w device_name = Some dev
               \<and> reader' = reader\<lparr>name := ''Rainbow Technologies iKey 2032'', nslots := 1,
                                    device := Some dev\<rparr>
               \<and> DeviceClose dev \<notin> set (drop (length w) w')))"
  using assms
  by (auto simp add: ikey2k_open_def Let_def split: option.splits if_splits)

theorem open_frame_witness:
  "ikey2k_open (test_layer None IFD_DEVICE_TYPE_USB 0) stale_reader [] ''usb:1'' =
     (- 1, \<lparr>name = ''Rainbow Technologies iKey 2032'', nslots = 1, device = None\<rparr>,
      [DeviceOpen ''usb:1'' None])
   \<and> ikey2k_open (test_layer (Some 7) IFD_DEVICE_TYPE_OTHER 0) stale_reader [] ''usb:1'' =
     (- 1, \<lparr>name = ''Rainbow Technologies iKey 2032'', nslots = 1, device = None\<rparr>,
      [DeviceOpen ''usb:1'' (Some 7),
       CtError ''ikey2k: device %s is not a USB device'' [''usb:1''],
       DeviceClose 7])
   \<and> ikey2k_open (test_layer (Some 7) IFD_DEVICE_TYPE_USB (- 1)) stale_reader [] ''usb:1'' =
     (- 1, \<lparr>name = ''Rainbow Technologies iKey 2032'', nslots = 1, device = None\<rparr>,
      [DeviceOpen ''usb:1'' (Some 7), SetParameters 7 0,
       CtError ''ikey2k: setting parameters failed'' [''usb:1''],
       DeviceClose 7])
   \<and> ikey2k_open (test_layer (Some 7) IFD_DEVICE_TYPE_USB 0) stale_reader [] ''usb:1'' =
     (0, \<lparr>name = ''Rainbow Technologies iKey 2032'', nslots = 1, device = Some 7\<rparr>,
      [DeviceOpen ''usb:1'' (Some 7), SetParameters 7 0])"
proof -
  have 1: "ikey2k_open (test_layer None IFD_DEVICE_TYPE_USB 0) stale_reader [] ''usb:1'' =
     (- 1, \<lparr>name = ''Rainbow Technologies iKey 2032'', nslots = 1, device = None\<rparr>,
      [DeviceOpen ''usb:1'' None])"
    by (simp add: ikey2k_open_def test_layer_def stale_reader_def Let_def)
  have 2: "ikey2k_open (test_layer (Some 7) IFD_DEVICE_TYPE_OTHER 0) stale_reader [] ''usb:1'' =
     (- 1, \<lparr>name = ''Rainbow Technologies iKey 2032'', nslots = 1, device = None\<rparr>,
      [DeviceOpen ''usb:1'' (Some 7),
       CtError ''ikey2k: device %s is not a USB device'' [''usb:1''],
       DeviceClose 7])"
    by (simp add: ikey2k_open_def test_layer_def stale_reader_def Let_def)
  have 3: "ikey2k_open (test_layer (Some 7) IFD_DEVICE_TYPE_USB (- 1)) stale_reader [] ''usb:1'' =
     (- 1, \<lparr>name = ''Rainbow Technologies iKey 2032'', nslots = 1, device = None\<rparr>,
      [DeviceOpen ''usb:1'' (Some 7), SetParameters 7 0,
       CtError ''ikey2k: setting parameters failed'' [''usb:1''],
       DeviceClose 7])"
    by (simp add: ikey2k_open_def test_layer_def stale_reader_def Let_def)
  have 4: "ikey2k_open (test_layer (Some 7) IFD_DEVICE_TYPE_USB 0) stale_reader [] ''usb:1'' =
     (0, \<lparr>name = ''Rainbow Technologies iKey 2032'', nslots = 1, device = Some 7\<rparr>,
      [DeviceOpen ''usb:1'' (Some 7), SetParameters 7 0])"
    by (simp add: ikey2k_open_def test_layer_def stale_reader_def Let_def)
  show ?thesis
    using open_frame [OF 1] open_frame [OF 2] open_frame [OF 3] open_frame [OF 4] 1 2 3 4
    by simp
qed

end
